theory Spec2Isabelle
  imports Main
begin

section \<open>Strings as the module sees them\<close>

text \<open>
  The module targets \<^verbatim>\<open>python >= 2.6\<close>; its strings are modelled as byte strings
  (\<^typ>\<open>string\<close>), so \<^verbatim>\<open>\w\<close> is \<^verbatim>\<open>[a-zA-Z0-9_]\<close>, as the comments of the
  source's character tables say, and whitespace is the ASCII whitespace of
  \<^verbatim>\<open>str.strip\<close> and \<^verbatim>\<open>\s\<close>.
\<close>

definition backslash :: char where
  "backslash = CHR 0x5C"

definition char_code :: "char \<Rightarrow> nat" where
  "char_code c = of_char c"

definition is_digit :: "char \<Rightarrow> bool" where
  "is_digit c = (48 \<le> char_code c \<and> char_code c \<le> 57)"

definition is_alpha :: "char \<Rightarrow> bool" where
  "is_alpha c = ((65 \<le> char_code c \<and> char_code c \<le> 90) \<or> (97 \<le> char_code c \<and> char_code c \<le> 122))"

definition is_word :: "char \<Rightarrow> bool" where
  "is_word c = (is_alpha c \<or> is_digit c \<or> c = CHR ''_'')"

definition is_space :: "char \<Rightarrow> bool" where
  "is_space c = (c = CHR '' '' \<or> (9 \<le> char_code c \<and> char_code c \<le> 13))"

text \<open>\<^verbatim>\<open>s.split(c)\<close> for a one-character separator: never the empty list.\<close>

fun str_split :: "char \<Rightarrow> string \<Rightarrow> string list" where
  "str_split c [] = [[]]"
| "str_split c (x # xs) =
     (if x = c then [] # str_split c xs
      else (case str_split c xs of
              [] \<Rightarrow> [[x]]
            | w # ws \<Rightarrow> (x # w) # ws))"

definition str_strip :: "string \<Rightarrow> string" where
  "str_strip s = rev (dropWhile is_space (rev (dropWhile is_space s)))"

text \<open>\<^verbatim>\<open>"%d" % n\<close> for a counter.\<close>

fun str_of_nat :: "nat \<Rightarrow> string" where
  "str_of_nat n =
     (if n < 10 then [char_of (48 + n)]
      else str_of_nat (n div 10) @ [char_of (48 + n mod 10)])"

declare str_of_nat.simps [simp del]

section \<open>The fragment of Python's \<^verbatim>\<open>re\<close> that the module uses\<close>

datatype re_error =
    BadCharacterRange
  | UnexpectedEnd
  | BogusEscape
  | NothingToRepeat
  | MultipleRepeat
  | Unsupported

subsection \<open>Character sets: \<^verbatim>\<open>[^...]\<close>\<close>

datatype category = CatWord | CatSpace | CatDigit | CatNotWord | CatNotSpace | CatNotDigit

datatype set_item = SetLiteral char | SetCategory category | SetRange char char

datatype tok = TChar char | TEsc char

text \<open>The pattern reader takes a backslash together with the character after it.\<close>

fun tokenize :: "string \<Rightarrow> re_error + tok list" where
  "tokenize [] = Inr []"
| "tokenize [c] = (if c = backslash then Inl BogusEscape else Inr [TChar c])"
| "tokenize (c # d # ds) =
     (if c = backslash
      then (case tokenize ds of Inl e \<Rightarrow> Inl e | Inr ts \<Rightarrow> Inr (TEsc d # ts))
      else (case tokenize (d # ds) of Inl e \<Rightarrow> Inl e | Inr ts \<Rightarrow> Inr (TChar c # ts)))"

text \<open>
  An escape inside a set: the categories, an escaped backslash, and an escaped
  punctuation character, which stands for itself. The other escapes of \<^verbatim>\<open>re\<close>
  (\<^verbatim>\<open>\n\<close>, \<^verbatim>\<open>\x41\<close>, octal) do not occur in the module's tables and are
  \<^const>\<open>Unsupported\<close> here.
\<close>

definition class_escape :: "char \<Rightarrow> re_error + set_item" where
  "class_escape d =
     (if d = CHR ''w'' then Inr (SetCategory CatWord)
      else if d = CHR ''s'' then Inr (SetCategory CatSpace)
      else if d = CHR ''d'' then Inr (SetCategory CatDigit)
      else if d = CHR ''W'' then Inr (SetCategory CatNotWord)
      else if d = CHR ''S'' then Inr (SetCategory CatNotSpace)
      else if d = CHR ''D'' then Inr (SetCategory CatNotDigit)
      else if is_alpha d \<or> is_digit d then Inl Unsupported
      else Inr (SetLiteral d))"

fun class_code :: "tok \<Rightarrow> re_error + set_item" where
  "class_code (TChar c) = Inr (SetLiteral c)"
| "class_code (TEsc d) = class_escape d"

text \<open>
  The loop of \<^verbatim>\<open>sre_parse\<close> over the body of a set. A \<^verbatim>\<open>]\<close> closes the set unless
  it is its first member; an item followed by \<^verbatim>\<open>-\<close> opens a range, unless the
  \<^verbatim>\<open>-\<close> is the last character of the set; both ends of a range are literals.
\<close>

fun parse_set :: "set_item list \<Rightarrow> tok list \<Rightarrow> re_error + (set_item list \<times> tok list)" where
  "parse_set acc [] = Inl UnexpectedEnd"
| "parse_set acc (t # ts) =
     (if t = TChar (CHR '']'') \<and> acc \<noteq> [] then Inr (acc, ts)
      else (case class_code t of
              Inl e \<Rightarrow> Inl e
            | Inr code1 \<Rightarrow>
               (case ts of
                  [] \<Rightarrow> parse_set (acc @ [code1]) ts
                | u # us \<Rightarrow>
                   (if u = TChar (CHR ''-'')
                    then (case us of
                            [] \<Rightarrow> Inl UnexpectedEnd
                          | t2 # rest \<Rightarrow>
                             (if t2 = TChar (CHR '']'')
                              then Inr (acc @ [code1, SetLiteral (CHR ''-'')], rest)
                              else (case class_code t2 of
                                      Inl e \<Rightarrow> Inl e
                                    | Inr code2 \<Rightarrow>
                                       (case (code1, code2) of
                                          (SetLiteral lo, SetLiteral hi) \<Rightarrow>
                                            (if char_code hi < char_code lo then Inl BadCharacterRange
                                             else parse_set (acc @ [SetRange lo hi]) rest)
                                        | _ \<Rightarrow> Inl BadCharacterRange))))
                    else parse_set (acc @ [code1]) ts))))"

datatype char_set = CharSet bool "set_item list"

text \<open>A pattern that is one character set, negated or not, and nothing else.\<close>

definition compile_set :: "string \<Rightarrow> re_error + char_set" where
  "compile_set pat =
     (case tokenize pat of
        Inl e \<Rightarrow> Inl e
      | Inr ts \<Rightarrow>
         (case ts of
            [] \<Rightarrow> Inl Unsupported
          | t # ts1 \<Rightarrow>
             (if t \<noteq> TChar (CHR ''['') then Inl Unsupported
              else let neg = (ts1 \<noteq> [] \<and> hd ts1 = TChar (CHR ''^''));
                       body = (if neg then tl ts1 else ts1)
                   in (case parse_set [] body of
                         Inl e \<Rightarrow> Inl e
                       | Inr (items, rest) \<Rightarrow>
                           (if rest = [] then Inr (CharSet neg items) else Inl Unsupported)))))"

fun in_category :: "category \<Rightarrow> char \<Rightarrow> bool" where
  "in_category CatWord c = is_word c"
| "in_category CatSpace c = is_space c"
| "in_category CatDigit c = is_digit c"
| "in_category CatNotWord c = (\<not> is_word c)"
| "in_category CatNotSpace c = (\<not> is_space c)"
| "in_category CatNotDigit c = (\<not> is_digit c)"

fun in_item :: "char \<Rightarrow> set_item \<Rightarrow> bool" where
  "in_item c (SetLiteral d) = (c = d)"
| "in_item c (SetCategory k) = in_category k c"
| "in_item c (SetRange lo hi) = (char_code lo \<le> char_code c \<and> char_code c \<le> char_code hi)"

fun set_matches :: "char_set \<Rightarrow> char \<Rightarrow> bool" where
  "set_matches (CharSet neg items) c = (neg \<noteq> list_ex (in_item c) items)"

text \<open>\<^verbatim>\<open>regex.search(s)\<close> for such a pattern: some character of \<open>s\<close> is in the set.\<close>

definition search_set :: "char_set \<Rightarrow> string \<Rightarrow> bool" where
  "search_set r s = list_ex (set_matches r) s"

subsection \<open>Sequences: the patterns built around a package name\<close>

text \<open>
  The two patterns that the module builds at run time are \<^verbatim>\<open>^\<close>, fixed text and a
  validated package name. Of the characters that can occur there, \<^verbatim>\<open>.\<close> matches
  any character but a newline, \<^verbatim>\<open>+\<close> and \<^verbatim>\<open>*\<close> repeat the item before them, and
  the rest stand for themselves. Repeating nothing or repeating a repeat is an
  error of \<^verbatim>\<open>re\<close> (before Python 3.11); the other special characters of \<^verbatim>\<open>re\<close>
  are \<^const>\<open>Unsupported\<close> here.
\<close>

datatype atom = Lit char | AnyChar

datatype piece = Single atom | Plus atom | Star atom

definition re_special :: "char \<Rightarrow> bool" where
  "re_special c = (c \<in> set ''[](){}?|$^'' \<or> c = backslash)"

text \<open>The pieces read so far are kept latest first.\<close>

fun parse_pieces :: "piece list \<Rightarrow> string \<Rightarrow> re_error + piece list" where
  "parse_pieces acc [] = Inr (rev acc)"
| "parse_pieces acc (c # cs) =
     (if c = CHR ''+'' \<or> c = CHR ''*'' then
        (case acc of
           [] \<Rightarrow> Inl NothingToRepeat
         | Single a # ps \<Rightarrow> parse_pieces ((if c = CHR ''+'' then Plus a else Star a) # ps) cs
         | _ \<Rightarrow> Inl MultipleRepeat)
      else if c = CHR ''.'' then parse_pieces (Single AnyChar # acc) cs
      else if re_special c then Inl Unsupported
      else parse_pieces (Single (Lit c) # acc) cs)"

text \<open>A compiled pattern: whether it starts with \<^verbatim>\<open>^\<close>, and its pieces.\<close>

definition re_compile :: "string \<Rightarrow> re_error + (bool \<times> piece list)" where
  "re_compile pat =
     (case pat of
        [] \<Rightarrow> Inr (False, [])
      | c # cs \<Rightarrow>
         (if c = CHR ''^''
          then (case parse_pieces [] cs of Inl e \<Rightarrow> Inl e | Inr ps \<Rightarrow> Inr (True, ps))
          else (case parse_pieces [] pat of Inl e \<Rightarrow> Inl e | Inr ps \<Rightarrow> Inr (False, ps))))"

fun atom_ok :: "atom \<Rightarrow> char \<Rightarrow> bool" where
  "atom_ok (Lit d) c = (c = d)"
| "atom_ok AnyChar c = (c \<noteq> CHR ''\<newline>'')"

text \<open>Whether the pieces match a prefix of the string.\<close>

fun match_here :: "piece list \<Rightarrow> string \<Rightarrow> bool" where
  "match_here [] s = True"
| "match_here (Single a # ps) [] = False"
| "match_here (Single a # ps) (c # cs) = (atom_ok a c \<and> match_here ps cs)"
| "match_here (Plus a # ps) [] = False"
| "match_here (Plus a # ps) (c # cs) = (atom_ok a c \<and> match_here (Star a # ps) cs)"
| "match_here (Star a # ps) [] = match_here ps []"
| "match_here (Star a # ps) (c # cs) =
     (match_here ps (c # cs) \<or> (atom_ok a c \<and> match_here (Star a # ps) cs))"

fun suffixes_of :: "string \<Rightarrow> string list" where
  "suffixes_of [] = [[]]"
| "suffixes_of (c # cs) = (c # cs) # suffixes_of cs"

text \<open>\<^verbatim>\<open>re.match(pat, s)\<close> and \<^verbatim>\<open>re.search(pat, s)\<close>, as truth values.\<close>

definition re_match :: "string \<Rightarrow> string \<Rightarrow> re_error + bool" where
  "re_match pat s =
     (case re_compile pat of Inl e \<Rightarrow> Inl e | Inr (anchored, ps) \<Rightarrow> Inr (match_here ps s))"

definition re_search :: "string \<Rightarrow> string \<Rightarrow> re_error + bool" where
  "re_search pat s =
     (case re_compile pat of
        Inl e \<Rightarrow> Inl e
      | Inr (anchored, ps) \<Rightarrow>
          Inr (if anchored then match_here ps s else list_ex (match_here ps) (suffixes_of s)))"

section \<open>The module's character tables\<close>

text \<open>
  \<^verbatim>\<open>_create_regex_group\<close>: the non-blank lines of the table, each cut at its
  comment and stripped, are joined and wrapped in \<^verbatim>\<open>[^\<close> ... \<^verbatim>\<open>]\<close>.
\<close>

definition create_regex_group_pattern :: "string \<Rightarrow> string" where
  "create_regex_group_pattern s =
     (let lines = map str_strip (filter (\<lambda>line. str_strip line \<noteq> []) (str_split (CHR ''\<newline>'') s));
          chars = filter (\<lambda>x. x \<noteq> []) (map (\<lambda>line. str_strip (hd (str_split (CHR ''#'') line))) lines)
      in ''[^'' @ concat chars @ '']'')"

definition create_regex_group :: "string \<Rightarrow> re_error + char_set" where
  "create_regex_group s = compile_set (create_regex_group_pattern s)"

text \<open>\<^verbatim>\<open>os.path.sep\<close> on the systems Homebrew runs on.\<close>

definition os_path_sep :: string where
  "os_path_sep = ''/''"

definition VALID_PATH_CHARS :: string where
  "VALID_PATH_CHARS = concat
    [''\<newline>'',
     ''        '' @ [backslash] @ ''w                  # alphanumeric characters (i.e., [a-zA-Z0-9_])\<newline>'',
     ''        '' @ [backslash] @ ''s                  # spaces\<newline>'',
     ''        :                   # colons\<newline>'',
     ''        '' @ os_path_sep @ ''               # the OS-specific path separator\<newline>'',
     ''        .                   # dots\<newline>'',
     ''        -                   # dashes\<newline>'',
     ''    '']"

definition VALID_BREW_PATH_CHARS :: string where
  "VALID_BREW_PATH_CHARS = concat
    [''\<newline>'',
     ''        '' @ [backslash] @ ''w                  # alphanumeric characters (i.e., [a-zA-Z0-9_])\<newline>'',
     ''        '' @ [backslash] @ ''s                  # spaces\<newline>'',
     ''        '' @ os_path_sep @ ''               # the OS-specific path separator\<newline>'',
     ''        .                   # dots\<newline>'',
     ''        -                   # dashes\<newline>'',
     ''    '']"

definition VALID_PACKAGE_CHARS :: string where
  "VALID_PACKAGE_CHARS = concat
    [''\<newline>'',
     ''        '' @ [backslash] @ ''w                  # alphanumeric characters (i.e., [a-zA-Z0-9_])\<newline>'',
     ''        .                   # dots\<newline>'',
     ''        /                   # slash (for taps)\<newline>'',
     ''        '' @ [backslash] @ ''+                  # plusses\<newline>'',
     ''        -                   # dashes\<newline>'',
     ''        :                   # colons (for URLs)\<newline>'',
     ''        @                   # at-sign\<newline>'',
     ''    '']"

definition INVALID_PATH_REGEX :: "re_error + char_set" where
  "INVALID_PATH_REGEX = create_regex_group VALID_PATH_CHARS"

definition INVALID_BREW_PATH_REGEX :: "re_error + char_set" where
  "INVALID_BREW_PATH_REGEX = create_regex_group VALID_BREW_PATH_CHARS"

definition INVALID_PACKAGE_REGEX :: "re_error + char_set" where
  "INVALID_PACKAGE_REGEX = create_regex_group VALID_PACKAGE_CHARS"

section \<open>Validations\<close>

text \<open>
  The values the validators may be handed: \<^verbatim>\<open>None\<close>, a string, a list, or
  something that is neither a string nor iterable (an integer stands for those).
\<close>

datatype pyval = PyNone | PyStr string | PyInt int | PyList "pyval list"

text \<open>
  The three patterns are compiled when the class is defined, so a pattern that
  did not compile would stop the module from loading; the \<open>Inl\<close> branch below is
  that case, and \<open>INVALID_*_REGEX_compiled\<close> show that it is dead.
\<close>

definition regex_search :: "re_error + char_set \<Rightarrow> string \<Rightarrow> bool" where
  "regex_search r s = (case r of Inl e \<Rightarrow> False | Inr cs \<Rightarrow> search_set cs s)"

fun valid_brew_path :: "pyval \<Rightarrow> bool" where
  "valid_brew_path PyNone = True"
| "valid_brew_path (PyStr brew_path) = (\<not> regex_search INVALID_BREW_PATH_REGEX brew_path)"
| "valid_brew_path _ = False"

fun valid_path :: "pyval \<Rightarrow> bool" where
  "valid_path (PyStr path) = (\<not> regex_search INVALID_PATH_REGEX path)"
| "valid_path (PyList paths) = list_all valid_brew_path paths"
| "valid_path _ = False"

fun valid_package :: "pyval \<Rightarrow> bool" where
  "valid_package PyNone = True"
| "valid_package (PyStr package) = (\<not> regex_search INVALID_PACKAGE_REGEX package)"
| "valid_package _ = False"

section \<open>The module object and the service object\<close>

text \<open>
  What the code uses of \<^verbatim>\<open>AnsibleModule\<close>: the parameters, the check-mode flag,
  \<^verbatim>\<open>get_bin_path('brew', required=True, opt_dirs=...)\<close>, which either returns a path
  or ends the module through \<^verbatim>\<open>fail_json\<close> with a message of its own (\<open>Inl\<close>), and
  \<^verbatim>\<open>run_command\<close>, which answers \<open>(rc, out, err)\<close>. The answer of the outside world
  may depend on the command and on how many commands were run before it.
\<close>

record module_params =
  p_name :: "string list"
  p_path :: string
  p_state :: string
  p_service_options :: "string list option"

record ansible_module =
  params :: module_params
  check_mode :: bool
  get_bin_path :: "pyval list \<Rightarrow> string + string"
  run_command :: "nat \<Rightarrow> string list \<Rightarrow> int \<times> string \<times> string"

text \<open>
  The fields of \<^verbatim>\<open>HomebrewService\<close>. \<open>packages\<close> is only ever tested for
  truth and iterated, so \<^verbatim>\<open>None\<close> is the empty list. \<open>spawned\<close> is not a field of the
  source: it records, in order, the command vectors handed to \<^verbatim>\<open>run_command\<close>.
\<close>

record homebrew_service =
  failed :: bool
  changed :: bool
  changed_count :: nat
  unchanged_count :: nat
  message :: string
  module :: ansible_module
  path :: "pyval list"
  brew_path :: string
  packages :: "string list"
  state :: string
  service_options :: "string list"
  current_package :: "string option"
  spawned :: "string list list"

text \<open>
  How a method ends: it returns a value, it raises \<^verbatim>\<open>HomebrewServiceException\<close>,
  or \<^verbatim>\<open>re\<close> raises an error that nothing in the module catches. Each carries the
  object as the method left it.
\<close>

datatype 'a outcome =
    Returned 'a homebrew_service
  | Raised homebrew_service
  | Uncaught re_error homebrew_service

subsection \<open>Construction\<close>

datatype init_error =
    InvalidPath
  | BinPathFailJson string
  | InvalidBrewPath
  | UnableToLocate

text \<open>
  \<^verbatim>\<open>__init__\<close>: the status variables, the instance variables (assigning \<open>path\<close>
  validates it), then \<^verbatim>\<open>_prep_brew_path\<close>. The module argument is an
  \<^verbatim>\<open>AnsibleModule\<close> by its type, so \<^verbatim>\<open>valid_module\<close> holds.
\<close>

definition init ::
  "ansible_module \<Rightarrow> pyval \<Rightarrow> string list \<Rightarrow> string \<Rightarrow> string list \<Rightarrow> init_error + homebrew_service" where
  "init m path_arg packages_arg state_arg service_options_arg =
     (if \<not> valid_path path_arg then Inl InvalidPath
      else
        let dirs = (case path_arg of
                      PyStr p \<Rightarrow> map PyStr (str_split (CHR '':'') p)
                    | PyList ps \<Rightarrow> ps
                    | _ \<Rightarrow> [])
        in (case get_bin_path m dirs of
              Inl msg \<Rightarrow> Inl (BinPathFailJson msg)
            | Inr bp \<Rightarrow>
               (if \<not> valid_brew_path (PyStr bp) then Inl InvalidBrewPath
                else if bp = [] then Inl UnableToLocate
                else Inr \<lparr> failed = False, changed = False, changed_count = 0,
                           unchanged_count = 0, message = [], module = m, path = dirs,
                           brew_path = bp, packages = packages_arg, state = state_arg,
                           service_options = service_options_arg, current_package = None,
                           spawned = [] \<rparr>)))"

subsection \<open>The current package\<close>

text \<open>\<^verbatim>\<open>self.current_package\<close> as a value, and as \<^verbatim>\<open>'{0}'.format\<close> prints it.\<close>

fun package_value :: "string option \<Rightarrow> pyval" where
  "package_value None = PyNone"
| "package_value (Some p) = PyStr p"

fun package_str :: "string option \<Rightarrow> string" where
  "package_str None = ''None''"
| "package_str (Some p) = p"

definition invalid_package :: "homebrew_service \<Rightarrow> string \<Rightarrow> homebrew_service" where
  "invalid_package s shown =
     s\<lparr> failed := True, message := ''Invalid package: '' @ shown @ ''.'' \<rparr>"

text \<open>The setter of \<^verbatim>\<open>current_package\<close>.\<close>

definition set_current_package :: "homebrew_service \<Rightarrow> string \<Rightarrow> string outcome" where
  "set_current_package s package =
     (if \<not> valid_package (PyStr package)
      then Raised (invalid_package (s\<lparr> current_package := None \<rparr>) package)
      else Returned package (s\<lparr> current_package := Some package \<rparr>))"

subsection \<open>Commands\<close>

text \<open>\<^verbatim>\<open>[opt for opt in opts if opt]\<close>: \<^verbatim>\<open>None\<close> and the empty string are dropped.\<close>

fun truthy :: "string option list \<Rightarrow> string list" where
  "truthy [] = []"
| "truthy (None # opts) = truthy opts"
| "truthy (Some opt # opts) = (if opt = [] then truthy opts else opt # truthy opts)"

definition command_for :: "homebrew_service \<Rightarrow> string \<Rightarrow> string list" where
  "command_for s verb =
     truthy ([Some (brew_path s), Some ''services'', Some verb]
             @ map Some (service_options s)
             @ [current_package s])"

text \<open>\<^verbatim>\<open>self.module.run_command(cmd)\<close>, with the command recorded.\<close>

definition spawn :: "homebrew_service \<Rightarrow> string list \<Rightarrow> (int \<times> string \<times> string) \<times> homebrew_service" where
  "spawn s cmd =
     (run_command (module s) (length (spawned s)) cmd, s\<lparr> spawned := spawned s @ [cmd] \<rparr>)"

definition start_current_package :: "homebrew_service \<Rightarrow> bool outcome" where
  "start_current_package s =
     (if \<not> valid_package (package_value (current_package s))
      then Raised (invalid_package s (package_str (current_package s)))
      else if check_mode (module s)
      then Raised (s\<lparr> changed := True,
                      message := ''Package would be started: '' @ package_str (current_package s) \<rparr>)
      else
        (case spawn s (command_for s ''start'') of
           ((rc, out, err), s1) \<Rightarrow>
             (if err = []
              then Returned True
                     (s1\<lparr> changed_count := changed_count s1 + 1,
                          message := ''Package started: '' @ package_str (current_package s1) \<rparr>)
              else Raised (s1\<lparr> failed := True, message := str_strip err \<rparr>))))"

definition stop_current_package :: "homebrew_service \<Rightarrow> bool outcome" where
  "stop_current_package s =
     (if \<not> valid_package (package_value (current_package s))
      then Raised (invalid_package s (package_str (current_package s)))
      else if check_mode (module s)
      then Raised (s\<lparr> changed := True,
                      message := ''Package would be stopped: '' @ package_str (current_package s) \<rparr>)
      else
        (case spawn s (command_for s ''stop'') of
           ((rc, out, err), s1) \<Rightarrow>
             (let match = ''^Error: Service `'' @ package_str (current_package s1)
                          @ ''` is not started.''
              in if err = []
                 then Returned True
                        (s1\<lparr> changed_count := changed_count s1 + 1,
                             changed := True,
                             message := ''Package stopped: '' @ package_str (current_package s1) \<rparr>)
                 else (case re_match match err of
                         Inl e \<Rightarrow> Uncaught e s1
                       | Inr True \<Rightarrow>
                           Returned True
                             (s1\<lparr> unchanged_count := unchanged_count s1 + 1,
                                  changed := False,
                                  message := ''Package already stopped: ''
                                             @ package_str (current_package s1) \<rparr>)
                       | Inr False \<Rightarrow>
                           Raised (s1\<lparr> failed := True, message := str_strip err \<rparr>)))))"

definition restart_current_package :: "homebrew_service \<Rightarrow> bool outcome" where
  "restart_current_package s =
     (if \<not> valid_package (package_value (current_package s))
      then Raised (invalid_package s (package_str (current_package s)))
      else if check_mode (module s)
      then Raised (s\<lparr> changed := True,
                      message := ''Package would be restarted: '' @ package_str (current_package s) \<rparr>)
      else
        (case spawn s (command_for s ''restart'') of
           ((rc, out, err), s1) \<Rightarrow>
             (if err = []
              then Returned True
                     (s1\<lparr> changed_count := changed_count s1 + 1,
                          changed := True,
                          message := ''Package restarted: '' @ package_str (current_package s1) \<rparr>)
              else Raised (s1\<lparr> failed := True, message := str_strip err \<rparr>))))"

text \<open>
  The loop that \<^verbatim>\<open>_start_packages\<close>, \<^verbatim>\<open>_stop_packages\<close> and
  \<^verbatim>\<open>_restart_packages\<close> share word for word: assign the package, run the
  per-package method, and return \<^verbatim>\<open>True\<close> after the last one.
\<close>

fun for_packages ::
  "(homebrew_service \<Rightarrow> bool outcome) \<Rightarrow> homebrew_service \<Rightarrow> string list \<Rightarrow> bool outcome" where
  "for_packages body s [] = Returned True s"
| "for_packages body s (package # rest) =
     (case set_current_package s package of
        Raised s1 \<Rightarrow> Raised s1
      | Uncaught e s1 \<Rightarrow> Uncaught e s1
      | Returned _ s1 \<Rightarrow>
         (case body s1 of
            Raised s2 \<Rightarrow> Raised s2
          | Uncaught e s2 \<Rightarrow> Uncaught e s2
          | Returned _ s2 \<Rightarrow> for_packages body s2 rest))"

definition start_packages :: "homebrew_service \<Rightarrow> bool outcome" where
  "start_packages s = for_packages start_current_package s (packages s)"

definition stop_packages :: "homebrew_service \<Rightarrow> bool outcome" where
  "stop_packages s = for_packages stop_current_package s (packages s)"

definition restart_packages :: "homebrew_service \<Rightarrow> bool outcome" where
  "restart_packages s = for_packages restart_current_package s (packages s)"

text \<open>\<^verbatim>\<open>_run\<close>; the state is compared as it is written, case and all.\<close>

definition private_run :: "homebrew_service \<Rightarrow> bool option outcome" where
  "private_run s =
     (if packages s \<noteq> [] then
        (if state s = ''started'' then map_outcome Some (start_packages s)
         else if state s = ''stopped'' then map_outcome Some (stop_packages s)
         else if state s = ''restarted'' then map_outcome Some (restart_packages s)
         else Returned None s)
      else Returned None s)"

definition status :: "homebrew_service \<Rightarrow> bool \<times> bool \<times> string" where
  "status s = (failed s, changed s, message s)"

definition summarise :: "homebrew_service \<Rightarrow> homebrew_service" where
  "summarise s =
     (if \<not> failed s \<and> changed_count s + unchanged_count s > 1
      then s\<lparr> message := ''Changed: '' @ str_of_nat (changed_count s)
                          @ '', Unchanged: '' @ str_of_nat (unchanged_count s) \<rparr>
      else s)"

text \<open>
  \<^verbatim>\<open>run\<close>: \<^verbatim>\<open>HomebrewServiceException\<close> is swallowed, the summary replaces the
  message when there is more than one counted package, and the status triple is
  returned (here with the object, whose counters the triple does not show).
\<close>

definition run :: "homebrew_service \<Rightarrow> re_error \<times> homebrew_service + (bool \<times> bool \<times> string) \<times> homebrew_service" where
  "run s =
     (case private_run s of
        Uncaught e s1 \<Rightarrow> Inl (e, s1)
      | Raised s1 \<Rightarrow> Inr (status (summarise s1), summarise s1)
      | Returned _ s1 \<Rightarrow> Inr (status (summarise s1), summarise s1))"


subsection \<open>The status query\<close>

fun scan_lines :: "homebrew_service \<Rightarrow> string \<Rightarrow> string list \<Rightarrow> bool outcome" where
  "scan_lines s pat [] = Returned False s"
| "scan_lines s pat (line # rest) =
     (case re_search pat line of
        Inl e \<Rightarrow> Uncaught e s
      | Inr True \<Rightarrow> Returned True s
      | Inr False \<Rightarrow> scan_lines s pat rest)"

text \<open>
  \<^verbatim>\<open>_current_package_is_started\<close>. The command list of the source is
  \<^verbatim>\<open>[brew_path, "services" "list"]\<close>: the two adjacent literals are one string.
\<close>

definition current_package_is_started :: "homebrew_service \<Rightarrow> bool outcome" where
  "current_package_is_started s =
     (if \<not> valid_package (package_value (current_package s))
      then Raised (invalid_package s (package_str (current_package s)))
      else
        (let cmd = [brew_path s, ''services'' @ ''list'']
         in (case spawn s cmd of
               ((rc, out, err), s1) \<Rightarrow>
                 scan_lines s1 (''^'' @ package_str (current_package s1) @ ''.*started'')
                   (str_split (CHR ''\<newline>'') out))))"

subsection \<open>The entry point\<close>

datatype module_exit = FailJson string | ExitJson bool string | Traceback

text \<open>
  \<^verbatim>\<open>main\<close>, with the commands that were run. An exception that leaves
  \<^verbatim>\<open>HomebrewService(...)\<close> or \<^verbatim>\<open>run\<close> is not caught there.
\<close>

definition main_service_options :: "module_params \<Rightarrow> string list" where
  "main_service_options p =
     map (\<lambda>install_option. ''--'' @ install_option)
       (case p_service_options p of None \<Rightarrow> [] | Some opts \<Rightarrow> opts)"

definition main :: "ansible_module \<Rightarrow> module_exit \<times> string list list" where
  "main m =
     (let p = params m;
          packages_arg = p_name p;
          path_arg = (if p_path p \<noteq> [] then PyList (map PyStr (str_split (CHR '':'') (p_path p)))
                      else PyStr (p_path p));
          state_arg = p_state p;
          service_options_arg = main_service_options p
      in (case init m path_arg packages_arg state_arg service_options_arg of
            Inl (BinPathFailJson msg) \<Rightarrow> (FailJson msg, [])
          | Inl _ \<Rightarrow> (Traceback, [])
          | Inr homebrew_service \<Rightarrow>
             (case run homebrew_service of
                Inl (e, s1) \<Rightarrow> (Traceback, spawned s1)
              | Inr ((failed1, changed1, message1), s1) \<Rightarrow>
                  (if failed1 then FailJson message1 else ExitJson changed1 message1,
                   spawned s1))))"


section \<open>Vocabulary of the properties\<close>

text \<open>Two states of the object belong to the same request.\<close>

definition same_request :: "homebrew_service \<Rightarrow> homebrew_service \<Rightarrow> bool" where
  "same_request s s' =
     (module s' = module s \<and> path s' = path s \<and> brew_path s' = brew_path s
      \<and> packages s' = packages s \<and> state s' = state s
      \<and> service_options s' = service_options s)"

text \<open>The dispatch of \<^verbatim>\<open>_run\<close>: the state, the verb on the command line, the method.\<close>

definition transition :: "string \<Rightarrow> string \<Rightarrow> (homebrew_service \<Rightarrow> bool outcome) \<Rightarrow> bool" where
  "transition st verb body =
     ((st = ''started'' \<and> verb = ''start'' \<and> body = start_current_package)
      \<or> (st = ''stopped'' \<and> verb = ''stop'' \<and> body = stop_current_package)
      \<or> (st = ''restarted'' \<and> verb = ''restart'' \<and> body = restart_current_package))"

text \<open>The command vector for one package.\<close>

definition service_command :: "homebrew_service \<Rightarrow> string \<Rightarrow> string \<Rightarrow> string list" where
  "service_command s verb package = command_for (s\<lparr> current_package := Some package \<rparr>) verb"

section \<open>The specification's character sets\<close>

text \<open>The specification's set for service names, \<^verbatim>\<open>[\w./+\-:@]\<close>.\<close>

definition spec_package_char :: "char \<Rightarrow> bool" where
  "spec_package_char c = (is_word c \<or> c \<in> set ''./+-:@'')"

text \<open>The specification's pattern for a directory of the search path, \<^verbatim>\<open>^[\w\s:/.\-]+$\<close>.\<close>

definition spec_path_dir :: "string \<Rightarrow> bool" where
  "spec_path_dir d = (d \<noteq> [] \<and> list_all (\<lambda>c. is_word c \<or> is_space c \<or> c \<in> set '':/.-'') d)"

section \<open>Example requests\<close>

text \<open>
  A module whose \<^verbatim>\<open>brew\<close> is found at \<^verbatim>\<open>/usr/local/bin/brew\<close>, and the service
  object that \<^verbatim>\<open>main\<close> constructs for it.
\<close>

definition example_module ::
  "bool \<Rightarrow> string list \<Rightarrow> string \<Rightarrow> string list option
     \<Rightarrow> (nat \<Rightarrow> string list \<Rightarrow> int \<times> string \<times> string) \<Rightarrow> ansible_module" where
  "example_module dry names st opts world =
     \<lparr> params = \<lparr> p_name = names, p_path = ''/usr/local/bin'', p_state = st,
                  p_service_options = opts \<rparr>,
       check_mode = dry,
       get_bin_path = (\<lambda>dirs. Inr ''/usr/local/bin/brew''),
       run_command = world \<rparr>"

definition example_service :: "ansible_module \<Rightarrow> homebrew_service" where
  "example_service m =
     \<lparr> failed = False, changed = False, changed_count = 0, unchanged_count = 0,
       message = [], module = m, path = [PyStr ''/usr/local/bin''],
       brew_path = ''/usr/local/bin/brew'', packages = p_name (params m),
       state = p_state (params m), service_options = main_service_options (params m),
       current_package = None, spawned = [] \<rparr>"

section \<open>What the validators accept\<close>

lemma INVALID_PACKAGE_REGEX_compiled:
  "INVALID_PACKAGE_REGEX =
     Inr (CharSet True [SetCategory CatWord, SetLiteral (CHR ''.''), SetLiteral (CHR ''/''),
                        SetRange (CHR ''+'') (CHR '':''), SetLiteral (CHR ''@'')])"
  by code_simp

lemma INVALID_PATH_REGEX_compiled:
  "INVALID_PATH_REGEX =
     Inr (CharSet True [SetCategory CatWord, SetCategory CatSpace, SetLiteral (CHR '':''),
                        SetLiteral (CHR ''/''), SetLiteral (CHR ''.''), SetLiteral (CHR ''-'')])"
  by code_simp

lemma INVALID_BREW_PATH_REGEX_compiled:
  "INVALID_BREW_PATH_REGEX =
     Inr (CharSet True [SetCategory CatWord, SetCategory CatSpace,
                        SetLiteral (CHR ''/''), SetLiteral (CHR ''.''), SetLiteral (CHR ''-'')])"
  by code_simp

lemma char_code_inj: "char_code c = char_code d \<Longrightarrow> c = d"
  by (simp add: char_code_def)

lemma plus_to_colon:
  "(char_code (CHR ''+'') \<le> char_code c \<and> char_code c \<le> char_code (CHR '':''))
     = (c \<in> set ''+,-./:'' \<or> is_digit c)"
proof -
  have eq: "\<And>d. (char_code c = char_code d) = (c = d)"
    using char_code_inj by blast
  have "(43 \<le> char_code c \<and> char_code c \<le> 58)
      = (char_code c = 43 \<or> char_code c = 44 \<or> char_code c = 45 \<or> char_code c = 46
         \<or> char_code c = 47 \<or> char_code c = 58 \<or> (48 \<le> char_code c \<and> char_code c \<le> 57))"
    by arith
  moreover have "char_code (CHR ''+'') = 43" "char_code (CHR '','') = 44" "char_code (CHR ''-'') = 45"
    "char_code (CHR ''.'') = 46" "char_code (CHR ''/'') = 47" "char_code (CHR '':'') = 58"
    by (simp_all add: char_code_def)
  ultimately show ?thesis
    unfolding is_digit_def using eq
    by (metis (no_types, lifting) list.set_intros(1,2) set_ConsD empty_iff empty_set)
qed

lemma valid_package_chars:
  "valid_package (PyStr s) = list_all (\<lambda>c. is_word c \<or> c \<in> set ''./+-:@'' \<or> c = CHR '','') s"
proof -
  have "valid_package (PyStr s) =
          list_all (\<lambda>c. is_word c \<or> c = CHR ''.'' \<or> c = CHR ''/''
                         \<or> (char_code (CHR ''+'') \<le> char_code c \<and> char_code c \<le> char_code (CHR '':''))
                         \<or> c = CHR ''@'') s"
    by (simp add: INVALID_PACKAGE_REGEX_compiled regex_search_def search_set_def
                  list_ex_iff list_all_iff)
  moreover have "\<And>c. (is_word c \<or> c = CHR ''.'' \<or> c = CHR ''/''
                         \<or> (char_code (CHR ''+'') \<le> char_code c \<and> char_code c \<le> char_code (CHR '':''))
                         \<or> c = CHR ''@'')
                 = (is_word c \<or> c \<in> set ''./+-:@'' \<or> c = CHR '','')"
    apply (subst plus_to_colon)
    apply (simp only: list.set insert_iff empty_iff)
    apply (intro iffI; elim disjE; simp add: is_word_def)
    done
  ultimately show ?thesis by simp
qed

lemma valid_brew_path_chars:
  "valid_brew_path (PyStr s) = list_all (\<lambda>c. is_word c \<or> is_space c \<or> c \<in> set ''/.-'') s"
  by (auto simp add: INVALID_BREW_PATH_REGEX_compiled regex_search_def search_set_def
                list_ex_iff list_all_iff)

lemma valid_path_str_chars:
  "valid_path (PyStr s) = list_all (\<lambda>c. is_word c \<or> is_space c \<or> c \<in> set '':/.-'') s"
  by (auto simp add: INVALID_PATH_REGEX_compiled regex_search_def search_set_def
                list_ex_iff list_all_iff)

section \<open>The per-package loop\<close>

lemma set_current_package_valid:
  "valid_package (PyStr p) \<Longrightarrow> set_current_package s p = Returned p (s\<lparr> current_package := Some p \<rparr>)"
  by (simp add: set_current_package_def)

lemma set_current_package_invalid:
  "\<not> valid_package (PyStr p) \<Longrightarrow>
     set_current_package s p = Raised (invalid_package (s\<lparr> current_package := None \<rparr>) p)"
  by (simp add: set_current_package_def)

lemma for_packages_append:
  "for_packages body s (xs @ ys) =
     (case for_packages body s xs of
        Returned r s1 \<Rightarrow> for_packages body s1 ys
      | Raised s1 \<Rightarrow> Raised s1
      | Uncaught e s1 \<Rightarrow> Uncaught e s1)"
  by (induction xs arbitrary: s) (auto split: outcome.splits)

lemma for_packages_invalid_head:
  "\<not> valid_package (PyStr bad) \<Longrightarrow>
     for_packages body s (bad # post) = Raised (invalid_package (s\<lparr> current_package := None \<rparr>) bad)"
  by (simp add: set_current_package_invalid)

lemma command_for_cong:
  "brew_path s' = brew_path s \<Longrightarrow> service_options s' = service_options s \<Longrightarrow>
   current_package s' = current_package s \<Longrightarrow> command_for s' verb = command_for s verb"
  by (simp add: command_for_def)

lemma start_returned:
  assumes "start_current_package s = Returned r s'"
  shows "r = True \<and> \<not> check_mode (module s) \<and> same_request s s'
         \<and> spawned s' = spawned s @ [command_for s ''start'']
         \<and> failed s' = failed s \<and> current_package s' = current_package s
         \<and> changed_count s' + unchanged_count s' = changed_count s + unchanged_count s + 1"
  using assms
  by (auto simp: start_current_package_def spawn_def same_request_def
           split: if_splits prod.splits)

lemma stop_returned:
  assumes "stop_current_package s = Returned r s'"
  shows "r = True \<and> \<not> check_mode (module s) \<and> same_request s s'
         \<and> spawned s' = spawned s @ [command_for s ''stop'']
         \<and> failed s' = failed s \<and> current_package s' = current_package s
         \<and> changed_count s' + unchanged_count s' = changed_count s + unchanged_count s + 1"
  using assms
  by (auto simp: stop_current_package_def spawn_def same_request_def Let_def
           split: if_splits prod.splits sum.splits bool.splits)

lemma restart_returned:
  assumes "restart_current_package s = Returned r s'"
  shows "r = True \<and> \<not> check_mode (module s) \<and> same_request s s'
         \<and> spawned s' = spawned s @ [command_for s ''restart'']
         \<and> failed s' = failed s \<and> current_package s' = current_package s
         \<and> changed_count s' + unchanged_count s' = changed_count s + unchanged_count s + 1"
  using assms
  by (auto simp: restart_current_package_def spawn_def same_request_def
           split: if_splits prod.splits)

lemma transition_returned:
  assumes "transition st verb body" "body s = Returned r s'"
  shows "r = True \<and> \<not> check_mode (module s) \<and> same_request s s'
         \<and> spawned s' = spawned s @ [command_for s verb]
         \<and> failed s' = failed s \<and> current_package s' = current_package s
         \<and> changed_count s' + unchanged_count s' = changed_count s + unchanged_count s + 1"
  using assms start_returned stop_returned restart_returned
  unfolding transition_def by blast

lemma for_packages_returned:
  assumes "transition st verb body" "for_packages body s ps = Returned r s'"
  shows "r = True \<and> same_request s s'
         \<and> spawned s' = spawned s @ map (service_command s verb) ps
         \<and> failed s' = failed s
         \<and> changed_count s' + unchanged_count s' = changed_count s + unchanged_count s + length ps
         \<and> (ps \<noteq> [] \<longrightarrow> \<not> check_mode (module s))"
  using assms(2)
proof (induction ps arbitrary: s)
  case Nil
  then show ?case by (simp add: same_request_def)
next
  case (Cons p ps)
  from Cons.prems obtain x s1 where s1: "set_current_package s p = Returned x s1"
    by (auto split: outcome.splits)
  then have s1_eq: "s1 = s\<lparr> current_package := Some p \<rparr>"
    by (auto simp: set_current_package_def split: if_splits)
  from Cons.prems s1 obtain y s2 where s2: "body s1 = Returned y s2"
    and rest: "for_packages body s2 ps = Returned r s'"
    by (auto split: outcome.splits)
  note b = transition_returned[OF assms(1) s2]
  note ih = Cons.IH[OF rest]
  have cmd: "command_for s1 verb = service_command s verb p"
    by (simp add: service_command_def s1_eq)
  have same: "service_command s2 verb = service_command s verb"
    using b by (auto simp: service_command_def command_for_def same_request_def s1_eq fun_eq_iff)
  show ?case
    using b ih cmd same
    by (auto simp: same_request_def s1_eq)
qed

section \<open>Facts about the example requests\<close>

lemma valid_package_foo: "valid_package (PyStr ''foo'')"
  by code_simp

lemma valid_example_path: "valid_path (PyList [PyStr ''/usr/local/bin''])"
  by code_simp

lemma valid_example_brew_path: "valid_brew_path (PyStr ''/usr/local/bin/brew'')"
  by code_simp

lemma str_split_example_path: "str_split (CHR '':'') ''/usr/local/bin'' = [''/usr/local/bin'']"
  by simp

lemma init_example:
  "init (example_module dry names st opts world) (PyList [PyStr ''/usr/local/bin''])
        names st (main_service_options (params (example_module dry names st opts world)))
     = Inr (example_service (example_module dry names st opts world))"
  by (simp add: init_def valid_example_path[simplified] valid_example_brew_path[simplified]
                example_service_def example_module_def)

lemma main_example:
  "main (example_module dry names st opts world) =
     (case run (example_service (example_module dry names st opts world)) of
        Inl (e, s1) \<Rightarrow> (Traceback, spawned s1)
      | Inr ((failed1, changed1, message1), s1) \<Rightarrow>
          (if failed1 then FailJson message1 else ExitJson changed1 message1, spawned s1))"
proof -
  let ?m = "example_module dry names st opts world"
  have p: "p_path (params ?m) = ''/usr/local/bin''" "p_name (params ?m) = names"
    "p_state (params ?m) = st"
    by (simp_all add: example_module_def)
  show ?thesis
    unfolding main_def Let_def p str_split_example_path
    using init_example[of dry names st opts world]
    by simp
qed

lemmas run_unfold =
  run_def private_run_def start_packages_def stop_packages_def restart_packages_def
  set_current_package_def start_current_package_def stop_current_package_def
  restart_current_package_def spawn_def command_for_def summarise_def status_def
  invalid_package_def

lemmas example_unfold = example_service_def example_module_def main_service_options_def

lemma valid_package_bar: "\<not> valid_package (PyStr ''bar!'')"
  by code_simp

section \<open>Further facts about the run\<close>

lemma init_Inr:
  assumes "init m pa pk st so = Inr s"
  obtains bp dirs where
    "s = \<lparr> failed = False, changed = False, changed_count = 0, unchanged_count = 0,
           message = [], module = m, path = dirs, brew_path = bp, packages = pk,
           state = st, service_options = so, current_package = None, spawned = [] \<rparr>"
    "bp \<noteq> []" "get_bin_path m dirs = Inr bp"
  using assms
  by (auto simp: init_def Let_def split: if_splits sum.splits)

lemma truthy_append: "truthy (xs @ ys) = truthy xs @ truthy ys"
  by (induction xs rule: truthy.induct) auto

lemma truthy_prefixed: "truthy (map Some (map (\<lambda>opt. ''--'' @ opt) opts)) = map (\<lambda>opt. ''--'' @ opt) opts"
  by (induction opts) auto

lemma private_run_transition:
  assumes "transition (state s) verb body" "packages s \<noteq> []"
  shows "private_run s = map_outcome Some (for_packages body s (packages s))"
  using assms
  by (auto simp: transition_def private_run_def start_packages_def stop_packages_def
                 restart_packages_def)


lemma re_match_not_started_foo:
  "re_match ''^Error: Service `foo` is not started.'' err =
     Inr (match_here (map (\<lambda>c. Single (Lit c)) ''Error: Service `foo` is not started''
                      @ [Single AnyChar]) err)"
  by (simp add: re_match_def re_compile_def re_special_def backslash_def)



lemma transition_started: "transition ''started'' ''start'' start_current_package"
  by (simp add: transition_def)

lemma valid_package_a: "valid_package (PyStr ''a'')"
  by code_simp

lemma valid_package_b: "valid_package (PyStr ''b'')"
  by code_simp

subsection \<open>Check mode\<close>




lemma transition_check_mode:
  assumes "transition st verb body" "check_mode (module s)"
      and "valid_package (package_value (current_package s))"
  shows "body s = Raised (s\<lparr> changed := True,
                             message := ''Package would be '' @ st @ '': ''
                                        @ package_str (current_package s) \<rparr>)"
  using assms
  by (auto simp: transition_def start_current_package_def stop_current_package_def
                 restart_current_package_def)

lemma for_packages_check_mode:
  assumes "transition st verb body" "check_mode (module s)"
  shows "for_packages body s (p # rest) =
           (if valid_package (PyStr p)
            then Raised (s\<lparr> current_package := Some p, changed := True,
                            message := ''Package would be '' @ st @ '': '' @ p \<rparr>)
            else Raised (invalid_package (s\<lparr> current_package := None \<rparr>) p))"
proof (cases "valid_package (PyStr p)")
  case True
  have "check_mode (module (s\<lparr> current_package := Some p \<rparr>))"
    using assms(2) by simp
  moreover have "valid_package (package_value (current_package (s\<lparr> current_package := Some p \<rparr>)))"
    using True by simp
  ultimately have "body (s\<lparr> current_package := Some p \<rparr>)
      = Raised (s\<lparr> current_package := Some p, changed := True,
                   message := ''Package would be '' @ st @ '': '' @ p \<rparr>)"
    using transition_check_mode[OF assms(1), of "s\<lparr> current_package := Some p \<rparr>"] by simp
  with True show ?thesis
    by (simp add: set_current_package_valid)
next
  case False
  then show ?thesis
    by (simp add: set_current_package_invalid)
qed

lemma private_run_other_state:
  assumes "state s \<noteq> ''started''" "state s \<noteq> ''stopped''" "state s \<noteq> ''restarted''"
  shows "private_run s = Returned None s"
  using assms by (simp add: private_run_def)

lemma transition_cases:
  obtains verb body where "transition st verb body"
  | "st \<noteq> ''started''" "st \<noteq> ''stopped''" "st \<noteq> ''restarted''"
  unfolding transition_def by blast

lemma spawned_summarise: "spawned (summarise s) = spawned s"
  by (simp add: summarise_def)

lemma run_check_mode:
  assumes "check_mode (module s)"
  shows "\<exists>st s'. run s = Inr (st, s') \<and> spawned s' = spawned s"
proof (cases "packages s")
  case Nil
  then show ?thesis
    by (simp add: run_def private_run_def spawned_summarise status_def)
next
  case (Cons p rest)
  show ?thesis
  proof (cases rule: transition_cases[of "state s"])
    case (1 verb body)
    have "private_run s = map_outcome Some (for_packages body s (p # rest))"
      using private_run_transition[OF 1] Cons by simp
    then show ?thesis
      unfolding for_packages_check_mode[OF 1 assms]
      by (simp add: run_def spawned_summarise status_def invalid_package_def)
  next
    case 2
    then show ?thesis
      by (simp add: run_def private_run_other_state spawned_summarise status_def)
  qed
qed

lemma main_check_mode:
  assumes "check_mode m"
  shows "snd (main m) = []"
proof -
  let ?init = "init m (if p_path (params m) \<noteq> []
                        then PyList (map PyStr (str_split (CHR '':'') (p_path (params m))))
                        else PyStr (p_path (params m)))
                 (p_name (params m)) (p_state (params m)) (main_service_options (params m))"
  show ?thesis
  proof (cases ?init)
    case (Inl e)
    then show ?thesis
      by (cases e) (simp_all add: main_def Let_def)
  next
    case (Inr s)
    then obtain bp dirs where
      "s = \<lparr> failed = False, changed = False, changed_count = 0, unchanged_count = 0,
           message = [], module = m, path = dirs, brew_path = bp,
           packages = p_name (params m), state = p_state (params m),
           service_options = main_service_options (params m), current_package = None,
           spawned = [] \<rparr>"
      by (rule init_Inr)
    then have "module s = m" "spawned s = []"
      by simp_all
    with run_check_mode[of s] assms obtain st s' where "run s = Inr (st, s')" "spawned s' = []"
      by auto
    with Inr show ?thesis
      by (simp add: main_def Let_def split: prod.splits)
  qed
qed

subsection \<open>The pattern fragment covers what the module builds\<close>

text \<open>
  A validated package name has none of the characters that the model of
  \<^verbatim>\<open>re\<close> leaves out, so neither pattern built around it is \<^const>\<open>Unsupported\<close>.
\<close>

lemma parse_pieces_supported:
  "\<forall>c \<in> set cs. \<not> re_special c \<Longrightarrow> parse_pieces acc cs \<noteq> Inl Unsupported"
proof (induction cs arbitrary: acc)
  case Nil
  then show ?case by simp
next
  case (Cons c cs)
  then have ih: "\<And>acc. parse_pieces acc cs \<noteq> Inl Unsupported" and c: "\<not> re_special c"
    by simp_all
  show ?case
    using ih c by (auto split: list.splits piece.splits)
qed

lemma re_match_supported:
  "\<forall>c \<in> set rest. \<not> re_special c \<Longrightarrow> re_match (CHR ''^'' # rest) err \<noteq> Inl Unsupported"
  using parse_pieces_supported[of rest "[]"]
  by (auto simp: re_match_def re_compile_def split: sum.splits)

lemma re_search_supported:
  "\<forall>c \<in> set rest. \<not> re_special c \<Longrightarrow> re_search (CHR ''^'' # rest) line \<noteq> Inl Unsupported"
  using parse_pieces_supported[of rest "[]"]
  by (auto simp: re_search_def re_compile_def split: sum.splits)

lemma valid_char_not_special:
  "is_word c \<or> c \<in> set ''./+-:@'' \<or> c = CHR '','' \<Longrightarrow> \<not> re_special c"
  by (auto simp: re_special_def is_word_def is_alpha_def is_digit_def char_code_def backslash_def)

lemma validated_patterns_supported:
  assumes "valid_package (PyStr p)"
  shows "re_match (''^Error: Service `'' @ p @ ''` is not started.'') err \<noteq> Inl Unsupported"
    and "re_search (''^'' @ p @ ''.*started'') line \<noteq> Inl Unsupported"
proof -
  have p: "\<forall>c \<in> set p. \<not> re_special c"
    using assms valid_char_not_special by (auto simp only: valid_package_chars list_all_iff)
  have fixed: "\<forall>c \<in> set ''Error: Service `''. \<not> re_special c"
    "\<forall>c \<in> set ''` is not started.''. \<not> re_special c"
    "\<forall>c \<in> set ''.*started''. \<not> re_special c"
    by (simp_all add: re_special_def backslash_def)
  have "re_match (CHR ''^'' # (''Error: Service `'' @ p @ ''` is not started.'')) err \<noteq> Inl Unsupported"
    by (rule re_match_supported) (use p fixed in \<open>simp only: set_append Un_iff; blast\<close>)
  then show "re_match (''^Error: Service `'' @ p @ ''` is not started.'') err \<noteq> Inl Unsupported"
    by simp
  have "re_search (CHR ''^'' # (p @ ''.*started'')) line \<noteq> Inl Unsupported"
    by (rule re_search_supported) (use p fixed in \<open>simp only: set_append Un_iff; blast\<close>)
  then show "re_search (''^'' @ p @ ''.*started'') line \<noteq> Inl Unsupported"
    by simp
qed

subsection \<open>A stop that changes one service and finds the next one stopped\<close>

text \<open>
  The no-op branch of \<^verbatim>\<open>_stop_current_package\<close> assigns \<^verbatim>\<open>self.changed = False\<close>, so
  the change made for an earlier service is no longer reported.
\<close>

lemma stop_noop_after_stop_reports_unchanged:
  "main (example_module False [''a'', ''b''] ''stopped'' None
          (\<lambda>n cmd. if n = 1 then (1, [], ''Error: Service `b` is not started.\<newline>'') else (0, [], [])))
     = (ExitJson False ''Changed: 1, Unchanged: 1'',
        [[''/usr/local/bin/brew'', ''services'', ''stop'', ''a''],
         [''/usr/local/bin/brew'', ''services'', ''stop'', ''b'']])"
proof -
  have n: "str_of_nat (Suc 0) = ''1''" by code_simp
  show ?thesis
    by (simp add: main_example)
       (simp add: run_unfold example_unfold valid_package_a[simplified] valid_package_b[simplified]
                  re_match_def re_compile_def re_special_def backslash_def n)
qed

section \<open>Claims\<close>

text \<open>
  C1. The specification asks that \<open>changed\<close> be true exactly when a service
  transitioned, and that one service started with an empty error stream give
  \<open>changed = true\<close>, the message \<^verbatim>\<open>Package started: foo\<close> and a changed count
  of 1. \<^verbatim>\<open>_start_current_package\<close> counts the change and sets the message but,
  unlike its stop and restart siblings, never sets \<open>changed\<close>: at that very request
  the run and the module report \<open>changed = false\<close>.
\<close>

theorem started_success_reports_unchanged:
  "run (example_service (example_module False [''foo''] ''started'' None (\<lambda>n cmd. (0, [], []))))
     = Inr ((False, False, ''Package started: foo''),
            (example_service (example_module False [''foo''] ''started'' None (\<lambda>n cmd. (0, [], []))))
              \<lparr> changed_count := 1, message := ''Package started: foo'',
                current_package := Some ''foo'',
                spawned := [[''/usr/local/bin/brew'', ''services'', ''start'', ''foo'']] \<rparr>)
   \<and> main (example_module False [''foo''] ''started'' None (\<lambda>n cmd. (0, [], [])))
     = (ExitJson False ''Package started: foo'',
        [[''/usr/local/bin/brew'', ''services'', ''start'', ''foo'']])"
  by (simp add: main_example)
     (simp add: run_unfold example_unfold valid_package_foo[simplified])

text \<open>
  C2. The specification asks that every name with a character outside
  \<^verbatim>\<open>[\w./+\-:@]\<close> be rejected. The table lists plus, dash and colon on
  consecutive lines, which the compiled set reads as the range from \<^verbatim>\<open>+\<close> to
  \<^verbatim>\<open>:\<close>; the comma lies in that range, so \<^verbatim>\<open>a,b\<close> is accepted although the
  comma is outside the specified set.
\<close>

theorem valid_package_accepts_comma:
  "valid_package (PyStr ''a,b'') \<and> \<not> list_all spec_package_char ''a,b''"
  by code_simp

text \<open>
  C5. The specification asks that the status query run the command vector
  \<^verbatim>\<open>[brew_path, "services", "list"]\<close>. The source's list lacks a comma between
  the last two literals, so the command that is run has two elements, the second
  being \<^verbatim>\<open>serviceslist\<close>.
\<close>

theorem status_query_command:
  "current_package_is_started
     ((example_service (example_module False [''foo''] ''started'' None
         (\<lambda>n cmd. (0, ''foo started root'', []))))\<lparr> current_package := Some ''foo'' \<rparr>)
   = Returned True
     ((example_service (example_module False [''foo''] ''started'' None
         (\<lambda>n cmd. (0, ''foo started root'', []))))
        \<lparr> current_package := Some ''foo'',
          spawned := [[''/usr/local/bin/brew'', ''serviceslist'']] \<rparr>)"
  by (simp add: current_package_is_started_def spawn_def example_unfold valid_package_foo[simplified]
        re_search_def re_compile_def re_special_def backslash_def)

text \<open>
  C3, as the specification has it: a malformed service name is reported before any
  process is spawned, also for the well-formed names listed before it. The code
  validates a name when the loop assigns it, after the earlier services were
  acted on: for the live request \<^verbatim>\<open>['foo', 'bar!']\<close> the command for \<^verbatim>\<open>foo\<close> has
  run when \<^verbatim>\<open>bar!\<close> is rejected.
\<close>

theorem command_runs_before_malformed_name_is_seen:
  "\<not> valid_package (PyStr ''bar!'')
   \<and> main (example_module False [''foo'', ''bar!''] ''started'' None (\<lambda>n cmd. (0, [], [])))
     = (FailJson ''Invalid package: bar!.'',
        [[''/usr/local/bin/brew'', ''services'', ''start'', ''foo'']])"
  by (simp add: main_example)
     (simp add: run_unfold example_unfold valid_package_foo[simplified] valid_package_bar[simplified])

text \<open>
  C3, amended. Let the request list a malformed name \<open>bad\<close> after the services
  \<open>pre\<close>, and let those have been processed without failure, leaving the object as
  \<open>s1\<close>. Then the run fails with the message \<^verbatim>\<open>Invalid package: bad.\<close>, and the
  commands that were spawned are one for each service of \<open>pre\<close>, in input order:
  none for the malformed name, none for a service after it.
\<close>

theorem malformed_name_reported_when_reached:
  assumes tr: "transition (state s) verb body"
      and pk: "packages s = pre @ bad # post"
      and bad: "\<not> valid_package (PyStr bad)"
      and pre: "for_packages body s pre = Returned True s1"
  shows "run s = Inr ((True, changed s1, ''Invalid package: '' @ bad @ ''.''),
                      s1\<lparr> current_package := None, failed := True,
                          message := ''Invalid package: '' @ bad @ ''.'' \<rparr>)
         \<and> spawned s1 = spawned s @ map (service_command s verb) pre"
proof -
  note f = for_packages_returned[OF tr pre]
  have "for_packages body s (pre @ bad # post)
          = Raised (s1\<lparr> current_package := None, failed := True,
                          message := ''Invalid package: '' @ bad @ ''.'' \<rparr>)"
    by (simp add: for_packages_append pre set_current_package_invalid[OF bad] invalid_package_def)
  then have "private_run s
          = Raised (s1\<lparr> current_package := None, failed := True,
                          message := ''Invalid package: '' @ bad @ ''.'' \<rparr>)"
    using private_run_transition[OF tr] pk by simp
  then have "run s = Inr ((True, changed s1, ''Invalid package: '' @ bad @ ''.''),
                      s1\<lparr> current_package := None, failed := True,
                          message := ''Invalid package: '' @ bad @ ''.'' \<rparr>)"
    by (simp add: run_def summarise_def status_def)
  with f show ?thesis by simp
qed

theorem malformed_name_reported_when_reached_witness:
  "(case run (example_service (example_module False [''foo'', ''bar!'', ''a''] ''started'' None
                (\<lambda>n cmd. (0, [], [])))) of
      Inl _ \<Rightarrow> False
    | Inr (st, s') \<Rightarrow>
        st = (True, False, ''Invalid package: bar!.'')
        \<and> spawned s' = [[''/usr/local/bin/brew'', ''services'', ''start'', ''foo'']])"
proof -
  let ?m = "example_module False [''foo'', ''bar!'', ''a''] ''started'' None
              (\<lambda>n cmd. (0, [], []))"
  let ?s = "example_service ?m"
  let ?s1 = "?s\<lparr> current_package := Some ''foo'',
                  spawned := [[''/usr/local/bin/brew'', ''services'', ''start'', ''foo'']],
                  changed_count := 1, message := ''Package started: foo'' \<rparr>"
  have tr: "transition (state ?s) ''start'' start_current_package"
    by (simp add: example_unfold transition_started)
  have pk: "packages ?s = [''foo''] @ ''bar!'' # [''a'']"
    by (simp add: example_unfold)
  have pre: "for_packages start_current_package ?s [''foo''] = Returned True ?s1"
    by (simp add: example_unfold set_current_package_def start_current_package_def spawn_def
                  command_for_def valid_package_foo[simplified])
  from malformed_name_reported_when_reached[OF tr pk valid_package_bar pre]
  have "run ?s = Inr ((True, changed ?s1, ''Invalid package: '' @ ''bar!'' @ ''.''),
                      ?s1\<lparr> current_package := None, failed := True,
                          message := ''Invalid package: '' @ ''bar!'' @ ''.'' \<rparr>)"
    by blast
  then show ?thesis
    by (simp add: example_unfold)
qed

text \<open>
  C4, as the specification has it: an empty entry of \<open>service_options\<close> is dropped
  from the command. \<^verbatim>\<open>main\<close> prefixes every entry before the command is built, so
  the empty entry reaches the filter as \<^verbatim>\<open>--\<close> and stays.
\<close>

theorem empty_option_becomes_double_dash:
  "main (example_module False [''foo''] ''started'' (Some ['''']) (\<lambda>n cmd. (0, [], [])))
     = (ExitJson False ''Package started: foo'',
        [[''/usr/local/bin/brew'', ''services'', ''start'', ''--'', ''foo'']])"
  by (simp add: main_example)
     (simp add: run_unfold example_unfold valid_package_foo[simplified])

text \<open>
  C4, amended. With the options as \<^verbatim>\<open>main\<close> hands them over, the command vector
  is the non-empty ones of \<open>brew_path\<close>, \<^verbatim>\<open>services\<close> and the verb, then every
  entry of \<open>service_options\<close> prefixed with \<^verbatim>\<open>--\<close>, in order and none dropped (an
  empty entry gives the argument \<^verbatim>\<open>--\<close>), then the package unless it is empty or
  \<^verbatim>\<open>None\<close>.
\<close>

theorem options_prefixed_and_kept:
  "command_for (s\<lparr> service_options := main_service_options p \<rparr>) verb
     = truthy [Some (brew_path s), Some ''services'', Some verb]
       @ map (\<lambda>opt. ''--'' @ opt) (case p_service_options p of None \<Rightarrow> [] | Some opts \<Rightarrow> opts)
       @ truthy [current_package s]"
proof -
  let ?opts = "case p_service_options p of None \<Rightarrow> [] | Some opts \<Rightarrow> opts"
  have "command_for (s\<lparr> service_options := main_service_options p \<rparr>) verb
          = truthy ([Some (brew_path s), Some ''services'', Some verb]
                    @ map Some (map (\<lambda>opt. ''--'' @ opt) ?opts)
                    @ [current_package s])"
    by (simp add: command_for_def main_service_options_def)
  also have "\<dots> = truthy [Some (brew_path s), Some ''services'', Some verb]
                    @ truthy (map Some (map (\<lambda>opt. ''--'' @ opt) ?opts))
                    @ truthy [current_package s]"
    by (simp only: truthy_append)
  finally show ?thesis
    by (simp only: truthy_prefixed)
qed

text \<open>
  C6, as the specification has it: a list of directories is accepted exactly when
  every directory matches \<^verbatim>\<open>^[\w\s:/.\-]+$\<close>, a colon included. The elements of a
  list are checked by \<^verbatim>\<open>valid_brew_path\<close>, whose table has no colon.
\<close>

theorem path_list_with_colon_rejected:
  "spec_path_dir ''/opt/a:b'' \<and> \<not> valid_path (PyList [PyStr ''/opt/a:b''])"
  by code_simp

text \<open>
  C6, amended. A list of directories is accepted exactly when every element is
  \<^verbatim>\<open>None\<close> or a string whose characters are all word characters, whitespace,
  \<^verbatim>\<open>/\<close>, \<^verbatim>\<open>.\<close> or \<^verbatim>\<open>-\<close>; an element with a colon is rejected.
\<close>

theorem valid_path_list_iff:
  "valid_path (PyList dirs) =
     (\<forall>d \<in> set dirs. d = PyNone
        \<or> (\<exists>dir. d = PyStr dir \<and> (\<forall>c \<in> set dir. is_word c \<or> is_space c \<or> c \<in> set ''/.-'')))"
proof -
  have "valid_brew_path d =
          (d = PyNone \<or> (\<exists>dir. d = PyStr dir \<and> (\<forall>c \<in> set dir. is_word c \<or> is_space c \<or> c \<in> set ''/.-'')))"
    for d
  proof (cases d)
    case (PyStr x)
    then show ?thesis
      using valid_brew_path_chars[of x] by (simp add: list_all_iff)
  qed simp_all
  then show ?thesis
    by (simp add: list_all_iff)
qed

theorem valid_path_list_iff_witness:
  "valid_path (PyList [PyStr ''/usr/local/bin'', PyNone])
   \<and> \<not> valid_path (PyList [PyStr ''/usr/local:bin''])"
proof -
  have c: "CHR '':'' \<in> set ''/usr/local:bin''" by simp
  have n: "\<not> (is_word (CHR '':'') \<or> is_space (CHR '':'') \<or> CHR '':'' \<in> set ''/.-'')"
    by code_simp
  have a: "\<forall>c \<in> set ''/usr/local/bin''. is_word c \<or> is_space c \<or> c \<in> set ''/.-''"
    by code_simp
  have 1: "valid_path (PyList [PyStr ''/usr/local/bin'', PyNone])"
    unfolding valid_path_list_iff using a by simp
  have 2: "\<not> valid_path (PyList [PyStr ''/usr/local:bin''])"
    unfolding valid_path_list_iff using c n by auto
  from 1 2 show ?thesis by simp
qed

text \<open>
  C7. A live request to stop the one service \<^verbatim>\<open>foo\<close>. If the error stream of the
  spawned command matches \<^verbatim>\<open>^Error: Service `foo` is not started.\<close>, the run is a
  recognised no-op: not failed, not changed, the unchanged count goes from 0 to 1
  and the message is \<^verbatim>\<open>Package already stopped: foo\<close>. Any other non-empty error
  stream fails the run, with the stripped error text as the message.
\<close>

theorem stop_not_started_is_noop:
  assumes "init m path_arg [''foo''] ''stopped'' opts = Inr s"
      and "\<not> check_mode m"
      and "run_command m 0 (service_command s ''stop'' ''foo'') = (rc, out, err)"
  shows "(re_match ''^Error: Service `foo` is not started.'' err = Inr True \<longrightarrow>
            run s = Inr ((False, False, ''Package already stopped: foo''),
                         s\<lparr> current_package := Some ''foo'',
                            spawned := [service_command s ''stop'' ''foo''],
                            unchanged_count := 1, changed := False,
                            message := ''Package already stopped: foo'' \<rparr>))
       \<and> (err \<noteq> [] \<and> re_match ''^Error: Service `foo` is not started.'' err \<noteq> Inr True \<longrightarrow>
            run s = Inr ((True, False, str_strip err),
                         s\<lparr> current_package := Some ''foo'',
                            spawned := [service_command s ''stop'' ''foo''],
                            failed := True, message := str_strip err \<rparr>))"
proof -
  from assms(1) obtain bp dirs where
    s: "s = \<lparr> failed = False, changed = False, changed_count = 0, unchanged_count = 0,
           message = [], module = m, path = dirs, brew_path = bp, packages = [''foo''],
           state = ''stopped'', service_options = opts, current_package = None, spawned = [] \<rparr>"
    by (rule init_Inr)
  have cmd: "run_command m 0 (truthy (Some bp # Some ''services'' # Some ''stop'' # map Some opts @ [Some ''foo'']))
               = (rc, out, err)"
    using assms(3) by (simp add: s service_command_def command_for_def)
  have nonempty: "re_match ''^Error: Service `foo` is not started.'' [] \<noteq> Inr True"
    by (simp add: re_match_not_started_foo)
  show ?thesis
  proof (intro conjI impI)
    assume m: "re_match ''^Error: Service `foo` is not started.'' err = Inr True"
    then have "err \<noteq> []" using nonempty by auto
    with m cmd assms(2) show "run s = Inr ((False, False, ''Package already stopped: foo''),
                         s\<lparr> current_package := Some ''foo'',
                            spawned := [service_command s ''stop'' ''foo''],
                            unchanged_count := 1, changed := False,
                            message := ''Package already stopped: foo'' \<rparr>)"
      by (simp add: s run_unfold valid_package_foo[simplified] service_command_def)
  next
    assume "err \<noteq> [] \<and> re_match ''^Error: Service `foo` is not started.'' err \<noteq> Inr True"
    then have e: "err \<noteq> []" and m: "re_match ''^Error: Service `foo` is not started.'' err = Inr False"
      by (auto simp: re_match_not_started_foo)
    with cmd assms(2) show "run s = Inr ((True, False, str_strip err),
                         s\<lparr> current_package := Some ''foo'',
                            spawned := [service_command s ''stop'' ''foo''],
                            failed := True, message := str_strip err \<rparr>)"
      by (simp add: s run_unfold valid_package_foo[simplified] service_command_def)
  qed
qed

theorem stop_not_started_is_noop_witness:
  "(case run (example_service (example_module False [''foo''] ''stopped'' None
                (\<lambda>n cmd. (1, [], ''Error: Service `foo` is not started.\<newline>'')))) of
      Inl _ \<Rightarrow> False
    | Inr (st, s') \<Rightarrow> st = (False, False, ''Package already stopped: foo'') \<and> unchanged_count s' = 1)
   \<and> (case run (example_service (example_module False [''foo''] ''stopped'' None
                (\<lambda>n cmd. (1, [], ''Error: Unknown command\<newline>'')))) of
      Inl _ \<Rightarrow> False
    | Inr (st, s') \<Rightarrow> st = (True, False, ''Error: Unknown command''))"
proof -
  let ?m = "example_module False [''foo''] ''stopped'' None
              (\<lambda>n cmd. (1, [], ''Error: Service `foo` is not started.\<newline>''))"
  let ?k = "example_module False [''foo''] ''stopped'' None
              (\<lambda>n cmd. (1, [], ''Error: Unknown command\<newline>''))"
  have live: "\<not> check_mode ?m" "\<not> check_mode ?k"
    by (simp_all add: example_module_def)
  have rm: "run_command ?m 0 (service_command (example_service ?m) ''stop'' ''foo'')
              = (1, [], ''Error: Service `foo` is not started.\<newline>'')"
    by (simp add: example_module_def)
  have rk: "run_command ?k 0 (service_command (example_service ?k) ''stop'' ''foo'')
              = (1, [], ''Error: Unknown command\<newline>'')"
    by (simp add: example_module_def)
  have mm: "re_match ''^Error: Service `foo` is not started.''
              ''Error: Service `foo` is not started.\<newline>'' = Inr True"
    by (simp add: re_match_not_started_foo)
  have mk: "''Error: Unknown command\<newline>'' \<noteq> []
            \<and> re_match ''^Error: Service `foo` is not started.'' ''Error: Unknown command\<newline>'' \<noteq> Inr True"
    by (simp add: re_match_not_started_foo)
  have sk: "str_strip ''Error: Unknown command\<newline>'' = ''Error: Unknown command''"
    by code_simp
  from stop_not_started_is_noop[OF init_example live(1) rm] mm
  have 1: "run (example_service ?m) = Inr ((False, False, ''Package already stopped: foo''),
             (example_service ?m)\<lparr> current_package := Some ''foo'',
                spawned := [service_command (example_service ?m) ''stop'' ''foo''],
                unchanged_count := 1, changed := False,
                message := ''Package already stopped: foo'' \<rparr>)"
    by blast
  from stop_not_started_is_noop[OF init_example live(2) rk] mk
  have 2: "run (example_service ?k) = Inr ((True, False, str_strip ''Error: Unknown command\<newline>''),
             (example_service ?k)\<lparr> current_package := Some ''foo'',
                spawned := [service_command (example_service ?k) ''stop'' ''foo''],
                failed := True, message := str_strip ''Error: Unknown command\<newline>'' \<rparr>)"
    by blast
  show ?thesis
    unfolding 1 2 sk by simp
qed




text \<open>
  C9. In check mode no command is spawned: every run of the object leaves the
  record of spawned commands as it was and returns a status, and \<^verbatim>\<open>main\<close> spawns
  nothing at all. For the request \<^verbatim>\<open>['foo']\<close> with state \<^verbatim>\<open>started\<close> the result is
  not failed, changed, with the message \<^verbatim>\<open>Package would be started: foo\<close>.
\<close>

theorem dry_run_spawns_nothing:
  "(check_mode (module s) \<longrightarrow> (\<exists>st s'. run s = Inr (st, s') \<and> spawned s' = spawned s))
   \<and> (check_mode m \<longrightarrow> snd (main m) = [])
   \<and> (check_mode m \<and> init m path_arg [''foo''] ''started'' opts = Inr s0 \<longrightarrow>
        run s0 = Inr ((False, True, ''Package would be started: foo''),
                      s0\<lparr> current_package := Some ''foo'', changed := True,
                          message := ''Package would be started: foo'' \<rparr>))"
proof (intro conjI impI)
  assume "check_mode (module s)"
  then show "\<exists>st s'. run s = Inr (st, s') \<and> spawned s' = spawned s"
    by (rule run_check_mode)
next
  assume "check_mode m"
  then show "snd (main m) = []"
    by (rule main_check_mode)
next
  assume a: "check_mode m \<and> init m path_arg [''foo''] ''started'' opts = Inr s0"
  then have "init m path_arg [''foo''] ''started'' opts = Inr s0" by simp
  then obtain bp dirs where
    s: "s0 = \<lparr> failed = False, changed = False, changed_count = 0, unchanged_count = 0,
           message = [], module = m, path = dirs, brew_path = bp, packages = [''foo''],
           state = ''started'', service_options = opts, current_package = None, spawned = [] \<rparr>"
    by (rule init_Inr)
  have tr: "transition (state s0) ''start'' start_current_package"
    by (simp add: s transition_started)
  have cm: "check_mode (module s0)" using a by (simp add: s)
  have "private_run s0 = map_outcome Some (for_packages start_current_package s0 [''foo''])"
    using private_run_transition[OF tr] by (simp add: s)
  then show "run s0 = Inr ((False, True, ''Package would be started: foo''),
                      s0\<lparr> current_package := Some ''foo'', changed := True,
                          message := ''Package would be started: foo'' \<rparr>)"
    unfolding for_packages_check_mode[OF tr cm]
    by (simp add: valid_package_foo[simplified] run_def summarise_def status_def s)
qed

theorem dry_run_spawns_nothing_witness:
  "snd (main (example_module True [''foo''] ''started'' None (\<lambda>n cmd. (0, [], [])))) = []
   \<and> (case run (example_service (example_module True [''foo''] ''started'' None (\<lambda>n cmd. (0, [], [])))) of
        Inl _ \<Rightarrow> False
      | Inr (st, s') \<Rightarrow> st = (False, True, ''Package would be started: foo'') \<and> spawned s' = [])"
proof -
  let ?m = "example_module True [''foo''] ''started'' None (\<lambda>n cmd. (0, [], []))"
  have cm: "check_mode ?m" by (simp add: example_module_def)
  note t = dry_run_spawns_nothing[of "example_service ?m" ?m "PyList [PyStr ''/usr/local/bin'']"
             "main_service_options (params ?m)" "example_service ?m"]
  from t cm have 1: "snd (main ?m) = []" by blast
  from t cm init_example[of True "[''foo'']" "''started''" None "\<lambda>n cmd. (0, [], [])"]
  have 2: "run (example_service ?m) = Inr ((False, True, ''Package would be started: foo''),
                      (example_service ?m)\<lparr> current_package := Some ''foo'', changed := True,
                          message := ''Package would be started: foo'' \<rparr>)"
    by blast
  show ?thesis
    unfolding 2 using 1 by (simp add: example_service_def)
qed

text \<open>
  C10. In check mode, for a request of two or more services in one of the three
  states, the run ends at the first service: if its name is well-formed the
  report that it would be changed ends the loop, with a message that names only
  that service (and if it is malformed, the error for it does). The result does
  not depend on the services after the first, whatever they are; the changed
  and unchanged counts stay 0, so no summary replaces the message, and nothing
  is spawned.
\<close>

theorem dry_run_examines_only_first:
  assumes cm: "check_mode m"
      and init: "init m path_arg (p # q # rest) st opts = Inr s"
      and st: "st = ''started'' \<or> st = ''stopped'' \<or> st = ''restarted''"
  shows "(valid_package (PyStr p) \<longrightarrow>
            run s = Inr ((False, True, ''Package would be '' @ st @ '': '' @ p),
                         s\<lparr> current_package := Some p, changed := True,
                            message := ''Package would be '' @ st @ '': '' @ p \<rparr>))
       \<and> (\<not> valid_package (PyStr p) \<longrightarrow>
            run s = Inr ((True, False, ''Invalid package: '' @ p @ ''.''),
                         s\<lparr> current_package := None, failed := True,
                            message := ''Invalid package: '' @ p @ ''.'' \<rparr>))
       \<and> changed_count s = 0 \<and> unchanged_count s = 0 \<and> spawned s = []"
proof -
  from init obtain bp dirs where
    s: "s = \<lparr> failed = False, changed = False, changed_count = 0, unchanged_count = 0,
           message = [], module = m, path = dirs, brew_path = bp, packages = p # q # rest,
           state = st, service_options = opts, current_package = None, spawned = [] \<rparr>"
    by (rule init_Inr)
  from st obtain verb body where tr: "transition (state s) verb body"
    unfolding transition_def by (auto simp: s)
  have cms: "check_mode (module s)" using cm by (simp add: s)
  have pr: "private_run s = map_outcome Some (for_packages body s (p # q # rest))"
    using private_run_transition[OF tr] by (simp add: s)
  have state_s: "state s = st" by (simp add: s)
  show ?thesis
    unfolding run_def pr for_packages_check_mode[OF tr cms] state_s
    by (simp add: summarise_def status_def invalid_package_def) (simp add: s)
qed

theorem dry_run_examines_only_first_witness:
  "(case run (example_service (example_module True [''foo'', ''bar!'', ''a''] ''stopped'' None
                (\<lambda>n cmd. (0, [], [])))) of
      Inl _ \<Rightarrow> False
    | Inr (st, s') \<Rightarrow>
        st = (False, True, ''Package would be stopped: foo'')
        \<and> changed_count s' = 0 \<and> unchanged_count s' = 0 \<and> spawned s' = []
        \<and> current_package s' = Some ''foo'')"
proof -
  let ?m = "example_module True [''foo'', ''bar!'', ''a''] ''stopped'' None (\<lambda>n cmd. (0, [], []))"
  have cm: "check_mode ?m" by (simp add: example_module_def)
  have st: "''stopped'' = ''started'' \<or> ''stopped'' = ''stopped'' \<or> ''stopped'' = ''restarted''"
    by simp
  from dry_run_examines_only_first[OF cm init_example st] valid_package_foo
  have "run (example_service ?m)
          = Inr ((False, True, ''Package would be '' @ ''stopped'' @ '': '' @ ''foo''),
                 (example_service ?m)\<lparr> current_package := Some ''foo'', changed := True,
                     message := ''Package would be '' @ ''stopped'' @ '': '' @ ''foo'' \<rparr>)"
    by blast
  then show ?thesis
    by (simp add: example_service_def)
qed

end
